theory Spec2Isabelle
  imports Complex_Main
begin

chapter \<open>The order-book viewer: venue adapters and impact simulator\<close>

text \<open>
  A model of \<open>src/app/page.js\<close>: the three venues' \<open>parse\<close> functions and the
  WebSocket message handler, the impact simulator \<open>calculateMetrics\<close>, the form's
  validation, the position of a simulated order in the book, and the page's delayed
  simulation. The definitions come first, the properties after them.
\<close>

section \<open>JavaScript numbers\<close>

text \<open>
  A JavaScript number is \<open>NaN\<close>, an infinity or a finite value. A finite double is
  modelled by the real number it denotes and arithmetic on finite values is exact:
  rounding, overflow to an infinity and the sign of zero are outside this model (a zero
  divisor counts as \<open>+0\<close>). What the model keeps is every branch the source can
  take on \<open>NaN\<close>, on the infinities and on a division by zero. The general properties
  below use no law of arithmetic, only which operations the source applies and in which
  order; the values of the examples are exact in double precision as well.
\<close>

datatype jsnum = NaN | PInf | NInf | Fin real

fun jneg :: "jsnum \<Rightarrow> jsnum" where
  "jneg NaN = NaN"
| "jneg PInf = NInf"
| "jneg NInf = PInf"
| "jneg (Fin a) = Fin (- a)"

fun jadd :: "jsnum \<Rightarrow> jsnum \<Rightarrow> jsnum" where
  "jadd NaN y = NaN"
| "jadd x NaN = NaN"
| "jadd PInf NInf = NaN"
| "jadd NInf PInf = NaN"
| "jadd PInf y = PInf"
| "jadd NInf y = NInf"
| "jadd (Fin a) PInf = PInf"
| "jadd (Fin a) NInf = NInf"
| "jadd (Fin a) (Fin b) = Fin (a + b)"

definition jsub :: "jsnum \<Rightarrow> jsnum \<Rightarrow> jsnum" where
  "jsub x y = jadd x (jneg y)"

text \<open>The sign of a product or quotient with an infinite operand.\<close>

definition signed_inf :: "bool \<Rightarrow> jsnum" where
  "signed_inf positive = (if positive then PInf else NInf)"

fun jmul :: "jsnum \<Rightarrow> jsnum \<Rightarrow> jsnum" where
  "jmul NaN y = NaN"
| "jmul x NaN = NaN"
| "jmul (Fin a) (Fin b) = Fin (a * b)"
| "jmul (Fin a) PInf = (if a = 0 then NaN else signed_inf (0 < a))"
| "jmul (Fin a) NInf = (if a = 0 then NaN else signed_inf (a < 0))"
| "jmul PInf (Fin b) = (if b = 0 then NaN else signed_inf (0 < b))"
| "jmul NInf (Fin b) = (if b = 0 then NaN else signed_inf (b < 0))"
| "jmul PInf PInf = PInf"
| "jmul NInf NInf = PInf"
| "jmul PInf NInf = NInf"
| "jmul NInf PInf = NInf"

fun jdiv :: "jsnum \<Rightarrow> jsnum \<Rightarrow> jsnum" where
  "jdiv NaN y = NaN"
| "jdiv x NaN = NaN"
| "jdiv (Fin a) (Fin b) =
     (if b = 0 then (if a = 0 then NaN else signed_inf (0 < a)) else Fin (a / b))"
| "jdiv (Fin a) PInf = Fin 0"
| "jdiv (Fin a) NInf = Fin 0"
| "jdiv PInf (Fin b) = signed_inf (0 \<le> b)"
| "jdiv NInf (Fin b) = signed_inf (b < 0)"
| "jdiv PInf y = NaN"
| "jdiv NInf y = NaN"

text \<open>The comparisons \<open><\<close>, \<open><=\<close>, \<open>>\<close>, \<open>>=\<close>: false as soon as one side is \<open>NaN\<close>.\<close>

fun jlt :: "jsnum \<Rightarrow> jsnum \<Rightarrow> bool" where
  "jlt NaN y = False"
| "jlt x NaN = False"
| "jlt PInf y = False"
| "jlt x NInf = False"
| "jlt NInf y = True"
| "jlt (Fin a) PInf = True"
| "jlt (Fin a) (Fin b) = (a < b)"

fun jle :: "jsnum \<Rightarrow> jsnum \<Rightarrow> bool" where
  "jle NaN y = False"
| "jle x NaN = False"
| "jle NInf y = True"
| "jle x PInf = True"
| "jle PInf y = False"
| "jle (Fin a) NInf = False"
| "jle (Fin a) (Fin b) = (a \<le> b)"

definition jgt :: "jsnum \<Rightarrow> jsnum \<Rightarrow> bool" where
  "jgt x y = jlt y x"

definition jge :: "jsnum \<Rightarrow> jsnum \<Rightarrow> bool" where
  "jge x y = jle y x"

text \<open>\<open>Math.min\<close> of two numbers and \<open>Math.abs\<close>.\<close>

fun Math_min :: "jsnum \<Rightarrow> jsnum \<Rightarrow> jsnum" where
  "Math_min NaN y = NaN"
| "Math_min x NaN = NaN"
| "Math_min x y = (if jle x y then x else y)"

fun Math_abs :: "jsnum \<Rightarrow> jsnum" where
  "Math_abs NaN = NaN"
| "Math_abs PInf = PInf"
| "Math_abs NInf = PInf"
| "Math_abs (Fin a) = Fin \<bar>a\<bar>"

section \<open>Strings to numbers\<close>

text \<open>
  Strings are ASCII. \<open>parseFloat\<close> and \<open>parseInt\<close> skip leading white space and
  read the longest prefix that is a numeric literal; without such a prefix the result
  is \<open>NaN\<close>. The value of a decimal literal is the exact real it writes.
\<close>

definition is_space :: "char \<Rightarrow> bool" where
  "is_space c = (c \<in> set [CHR 0x09, CHR 0x0A, CHR 0x0B, CHR 0x0C, CHR 0x0D, CHR 0x20])"

definition digit_val :: "char \<Rightarrow> nat option" where
  "digit_val = map_of
     [(CHR ''0'', 0), (CHR ''1'', 1), (CHR ''2'', 2), (CHR ''3'', 3), (CHR ''4'', 4),
      (CHR ''5'', 5), (CHR ''6'', 6), (CHR ''7'', 7), (CHR ''8'', 8), (CHR ''9'', 9)]"

definition is_digit :: "char \<Rightarrow> bool" where
  "is_digit c = (digit_val c \<noteq> None)"

definition digits_value :: "string \<Rightarrow> nat" where
  "digits_value ds =
     foldl (\<lambda>acc c. 10 * acc + (case digit_val c of Some d \<Rightarrow> d | None \<Rightarrow> 0)) 0 ds"

definition pow10 :: "int \<Rightarrow> real" where
  "pow10 e = (if 0 \<le> e then 10 ^ nat e else 1 / 10 ^ nat (- e))"

text \<open>
  An exponent part \<open>e\<close>, \<open>e+\<close> or \<open>e-\<close> followed by at least one digit; anything
  else is no exponent and is left unread.
\<close>

definition scan_exponent :: "string \<Rightarrow> int \<times> string" where
  "scan_exponent s =
     (case s of
        [] \<Rightarrow> (0, s)
      | c # r \<Rightarrow>
          if c = CHR ''e'' \<or> c = CHR ''E'' then
            (let neg = (case r of [] \<Rightarrow> False | d # _ \<Rightarrow> d = CHR ''-'');
                 r1 = (case r of [] \<Rightarrow> r
                       | d # r' \<Rightarrow> if d = CHR ''-'' \<or> d = CHR ''+'' then r' else r);
                 ds = takeWhile is_digit r1
             in if ds = [] then (0, s)
                else (if neg then - int (digits_value ds) else int (digits_value ds),
                      dropWhile is_digit r1))
          else (0, s))"

text \<open>
  An unsigned literal: \<open>Infinity\<close>, digits with an optional fraction and exponent, or
  a fraction that starts with the point. The result is the value and the unread rest.
\<close>

definition scan_unsigned :: "string \<Rightarrow> (jsnum \<times> string) option" where
  "scan_unsigned s =
     (if take 8 s = ''Infinity'' then Some (PInf, drop 8 s)
      else
        (let ip = takeWhile is_digit s; r1 = dropWhile is_digit s
         in case r1 of
              [] \<Rightarrow> if ip = [] then None else Some (Fin (real (digits_value ip)), [])
            | c # r2 \<Rightarrow>
                if c = CHR ''.'' then
                  (let fp = takeWhile is_digit r2; r3 = dropWhile is_digit r2
                   in if ip = [] \<and> fp = [] then None
                      else
                        (let m = real (digits_value ip)
                                 + real (digits_value fp) / 10 ^ length fp;
                             er = scan_exponent r3
                         in Some (Fin (m * pow10 (fst er)), snd er)))
                else if ip = [] then None
                else
                  (let er = scan_exponent r1
                   in Some (Fin (real (digits_value ip) * pow10 (fst er)), snd er))))"

definition scan_signed :: "string \<Rightarrow> (jsnum \<times> string) option" where
  "scan_signed s =
     (case s of
        [] \<Rightarrow> None
      | c # r \<Rightarrow>
          if c = CHR ''-'' then map_option (\<lambda>vr. (jneg (fst vr), snd vr)) (scan_unsigned r)
          else if c = CHR ''+'' then scan_unsigned r
          else scan_unsigned s)"

definition parseFloat_str :: "string \<Rightarrow> jsnum" where
  "parseFloat_str s =
     (case scan_signed (dropWhile is_space s) of None \<Rightarrow> NaN | Some vr \<Rightarrow> fst vr)"

text \<open>\<open>parseInt(s, 10)\<close>: an optional sign and the decimal digits that follow.\<close>

definition parseInt10 :: "string \<Rightarrow> jsnum" where
  "parseInt10 s =
     (let t = dropWhile is_space s;
          neg = (case t of [] \<Rightarrow> False | c # _ \<Rightarrow> c = CHR ''-'');
          r = (case t of [] \<Rightarrow> t
               | c # r' \<Rightarrow> if c = CHR ''-'' \<or> c = CHR ''+'' then r' else t);
          ds = takeWhile is_digit r
      in if ds = [] then NaN
         else Fin (if neg then - real (digits_value ds) else real (digits_value ds)))"

section \<open>The book and the order\<close>

text \<open>
  A ladder is an array of levels and a level is an array whose first two entries are the
  price and the size. An entry is a string (as two venues send it, and as the form's
  fields are) or a number; reading past the end of an array gives \<open>undefined\<close>.
\<close>

datatype cell = Undefined | Str string | Num jsnum

fun parseFloat :: "cell \<Rightarrow> jsnum" where
  "parseFloat Undefined = NaN"
| "parseFloat (Str s) = parseFloat_str s"
| "parseFloat (Num n) = n"

fun truthy :: "cell \<Rightarrow> bool" where
  "truthy Undefined = False"
| "truthy (Str s) = (s \<noteq> [])"
| "truthy (Num n) = (n \<noteq> NaN \<and> n \<noteq> Fin 0)"

type_synonym level = "cell list"
type_synonym ladder = "level list"

definition nth_cell :: "level \<Rightarrow> nat \<Rightarrow> cell" where
  "nth_cell l i = (if i < length l then l ! i else Undefined)"

record 'a book =
  bids :: 'a
  asks :: 'a

datatype side = Buy | Sell

datatype orderType = Market | Limit

text \<open>
  The form's data; the order handed to the simulator has the same fields. The form's
  buttons set \<open>side\<close> to \<open>'Buy'\<close> or \<open>'Sell'\<close> and \<open>orderType\<close> to \<open>'Limit'\<close>
  or \<open>'Market'\<close>; its inputs are strings.
\<close>

record order =
  symbol :: string
  orderType :: orderType
  side :: side
  price :: cell
  quantity :: cell
  delay :: string

record metrics =
  fillPercent :: jsnum
  slippage :: jsnum
  impact :: jsnum
  warning :: string

section \<open>The impact simulator: calculateMetrics\<close>

text \<open>The variables the two loops of \<open>calculateMetrics\<close> update.\<close>

record walk =
  filledQty :: jsnum
  totalCost :: jsnum
  qtyToFill :: jsnum

text \<open>
  The loop of a market order. The test that leaves the loop stands at the end of the
  body, so the first level is always visited.
\<close>

fun market_walk :: "ladder \<Rightarrow> walk \<Rightarrow> walk" where
  "market_walk [] w = w"
| "market_walk (l # ls) w =
     (let p = parseFloat (nth_cell l 0);
          q = parseFloat (nth_cell l 1);
          fillable = Math_min (qtyToFill w) q;
          w' = \<lparr>filledQty = jadd (filledQty w) fillable,
                totalCost = jadd (totalCost w) (jmul fillable p),
                qtyToFill = jsub (qtyToFill w) fillable\<rparr>
      in if jle (qtyToFill w') (Fin 0) then w' else market_walk ls w')"

text \<open>The loop of a limit order: a level is filled only when \<open>canFill\<close> holds.\<close>

definition canFill :: "side \<Rightarrow> jsnum \<Rightarrow> level \<Rightarrow> bool" where
  "canFill sd limitPrice l =
     (if sd = Buy then jle (parseFloat (nth_cell l 0)) limitPrice
      else jge (parseFloat (nth_cell l 0)) limitPrice)"

fun limit_walk :: "side \<Rightarrow> jsnum \<Rightarrow> ladder \<Rightarrow> walk \<Rightarrow> walk" where
  "limit_walk sd limitPrice [] w = w"
| "limit_walk sd limitPrice (l # ls) w =
     (let q = parseFloat (nth_cell l 1);
          w' = (if canFill sd limitPrice l
                then (let fillable = Math_min (qtyToFill w) q
                      in w\<lparr>filledQty := jadd (filledQty w) fillable,
                           qtyToFill := jsub (qtyToFill w) fillable\<rparr>)
                else w)
      in if jle (qtyToFill w') (Fin 0) then w' else limit_walk sd limitPrice ls w')"

definition bookSide :: "order \<Rightarrow> ladder book \<Rightarrow> ladder" where
  "bookSide order book = (if side order = Buy then asks book else bids book)"

text \<open>\<open>parseFloat(bookSide[0]?.[0] || '0')\<close>\<close>

definition entryPrice :: "ladder \<Rightarrow> jsnum" where
  "entryPrice levels =
     (let v = (case levels of [] \<Rightarrow> Undefined | l # _ \<Rightarrow> nth_cell l 0)
      in parseFloat (if truthy v then v else Str ''0''))"

text \<open>The loop variables when the loop of the order's type has ended.\<close>

definition run_walk :: "order \<Rightarrow> ladder book \<Rightarrow> walk" where
  "run_walk order book =
     (let start = \<lparr>filledQty = Fin 0, totalCost = Fin 0,
                    qtyToFill = parseFloat (quantity order)\<rparr>
      in if orderType order = Market then market_walk (bookSide order book) start
         else limit_walk (side order) (parseFloat (price order)) (bookSide order book) start)"

text \<open>\<open>avgFillPrice\<close>, a constant of the market branch.\<close>

definition avgFillPrice :: "order \<Rightarrow> ladder book \<Rightarrow> jsnum" where
  "avgFillPrice order book =
     jdiv (totalCost (run_walk order book)) (filledQty (run_walk order book))"

text \<open>
  \<open>calculateMetrics\<close>. The warning's text holds \<open>impact.toFixed(2)\<close>; the digits
  that \<open>toFixed\<close> prints are those of a double, so the rendering is a parameter.
\<close>

definition calculateMetrics :: "(jsnum \<Rightarrow> string) \<Rightarrow> order \<Rightarrow> ladder book \<Rightarrow> metrics" where
  "calculateMetrics toFixed2 order book =
     (let qty = parseFloat (quantity order);
          entry = entryPrice (bookSide order book);
          w = run_walk order book;
          avg = avgFillPrice order book;
          slip = (if orderType order = Market \<and> jgt entry (Fin 0) \<and> jgt (filledQty w) (Fin 0)
                  then jmul (Math_abs (jdiv (jsub avg entry) entry)) (Fin 100)
                  else Fin 0);
          imp = (if orderType order = Market then Math_abs (jsub avg entry) else Fin 0);
          fp = (if jgt qty (Fin 0) then jmul (jdiv (filledQty w) qty) (Fin 100) else Fin 100);
          warn = (if jgt slip (Fin (1 / 2))
                  then ''High slippage warning! Your order may cause a price impact of approximately $''
                       @ toFixed2 imp @ ''.''
                  else [])
      in \<lparr>fillPercent = fp, slippage = slip, impact = imp, warning = warn\<rparr>)"

section \<open>The form's validation: handleSubmit\<close>


section \<open>The position in the book: findSimulatedIndex\<close>

text \<open>\<open>Array.prototype.findIndex\<close>: the first index whose element passes, or \<open>-1\<close>.\<close>

fun findIndex_from :: "nat \<Rightarrow> ('a \<Rightarrow> bool) \<Rightarrow> 'a list \<Rightarrow> int" where
  "findIndex_from k P [] = - 1"
| "findIndex_from k P (x # xs) = (if P x then int k else findIndex_from (Suc k) P xs)"

definition findIndex :: "('a \<Rightarrow> bool) \<Rightarrow> 'a list \<Rightarrow> int" where
  "findIndex P xs = findIndex_from 0 P xs"

definition findSimulatedIndex :: "ladder \<Rightarrow> order option \<Rightarrow> int" where
  "findSimulatedIndex levels ord =
     (case ord of
        None \<Rightarrow> - 1
      | Some order \<Rightarrow>
          (let p = parseFloat (price order)
           in if side order = Buy
              then findIndex (\<lambda>ask. jge p (parseFloat (nth_cell ask 0))) levels
              else findIndex (\<lambda>bid. jle p (parseFloat (nth_cell bid 0))) levels))"

definition simulatedAskIndex :: "ladder book \<Rightarrow> order option \<Rightarrow> int" where
  "simulatedAskIndex book ord = findSimulatedIndex (asks book) ord"

definition simulatedBidIndex :: "ladder book \<Rightarrow> order option \<Rightarrow> int" where
  "simulatedBidIndex book ord = findSimulatedIndex (bids book) ord"

section \<open>The page: a delayed simulation\<close>

text \<open>
  The state of the page component. \<open>currentOrderbook\<close> is the book of the last render.
  A pending timer is the closure \<open>executeSimulation\<close> that \<open>setTimeout\<close> was given:
  the form data and the \<open>currentOrderbook\<close> of the render whose
  \<open>handleSimulationSubmit\<close> created it.
\<close>

record page =
  currentOrderbook :: "ladder book"
  symbolState :: string
  simulatedOrder :: "order option"
  simulationMetrics :: "metrics option"
  simulationTimeout :: "(order \<times> ladder book) option"

definition executeSimulation :: "(jsnum \<Rightarrow> string) \<Rightarrow> order \<Rightarrow> ladder book \<Rightarrow> page \<Rightarrow> page" where
  "executeSimulation toFixed2 formData book pg =
     (let orderPrice =
            (if orderType formData = Market then
               (if side formData = Buy \<and> asks book \<noteq> []
                then nth_cell (hd (asks book)) 0
                else if side formData = Sell \<and> bids book \<noteq> []
                then nth_cell (hd (bids book)) 0
                else price formData)
             else price formData);
          order = formData\<lparr>price := orderPrice\<rparr>
      in pg\<lparr>simulatedOrder := Some order,
            simulationMetrics := Some (calculateMetrics toFixed2 order book)\<rparr>)"

text \<open>
  \<open>handleSimulationSubmit\<close>: a pending timer is cleared; with a positive delay the
  simulation is handed to a timer, otherwise it runs at once. In both cases it runs on
  \<open>book = currentOrderbook\<close> as the submitting render saw it.
\<close>

definition handleSimulationSubmit :: "(jsnum \<Rightarrow> string) \<Rightarrow> order \<Rightarrow> page \<Rightarrow> page" where
  "handleSimulationSubmit toFixed2 formData pg =
     (let book = currentOrderbook pg;
          pg' = pg\<lparr>simulationTimeout := None, symbolState := symbol formData\<rparr>;
          delay_ms = jmul (parseInt10 (delay formData)) (Fin 1000)
      in if jgt delay_ms (Fin 0) then pg'\<lparr>simulationTimeout := Some (formData, book)\<rparr>
         else executeSimulation toFixed2 formData book pg')"

text \<open>
  What happens to the page: the feed publishes a book, the form submits an order, or the
  pending timer fires.
\<close>

datatype event = SetOrderbook "ladder book" | Submit order | TimerFires

fun step :: "(jsnum \<Rightarrow> string) \<Rightarrow> page \<Rightarrow> event \<Rightarrow> page" where
  "step toFixed2 pg (SetOrderbook b) = pg\<lparr>currentOrderbook := b\<rparr>"
| "step toFixed2 pg (Submit formData) = handleSimulationSubmit toFixed2 formData pg"
| "step toFixed2 pg TimerFires =
     (case simulationTimeout pg of
        None \<Rightarrow> pg
      | Some (formData, book) \<Rightarrow>
          executeSimulation toFixed2 formData book (pg\<lparr>simulationTimeout := None\<rparr>))"

definition run :: "(jsnum \<Rightarrow> string) \<Rightarrow> page \<Rightarrow> event list \<Rightarrow> page" where
  "run toFixed2 pg evs = foldl (step toFixed2) pg evs"

section \<open>Inbound messages\<close>

text \<open>
  The values \<open>JSON.parse\<close> returns, and \<open>undefined\<close>, which reading a missing
  property gives. An object is the list of its own properties. A thrown exception is the
  \<open>Inl\<close> of a result.
\<close>

datatype js_error = SyntaxError | TypeError

datatype jsval =
  JUndefined | JNull | JBool bool | JNum jsnum | JStr string
  | JArr "jsval list" | JObj "(string \<times> jsval) list"

definition ebind :: "js_error + 'a \<Rightarrow> ('a \<Rightarrow> js_error + 'b) \<Rightarrow> js_error + 'b" where
  "ebind r f = (case r of Inl e \<Rightarrow> Inl e | Inr x \<Rightarrow> f x)"

fun emap :: "('a \<Rightarrow> js_error + 'b) \<Rightarrow> 'a list \<Rightarrow> js_error + 'b list" where
  "emap f [] = Inr []"
| "emap f (x # xs) = ebind (f x) (\<lambda>y. ebind (emap f xs) (\<lambda>ys. Inr (y # ys)))"

fun js_truthy :: "jsval \<Rightarrow> bool" where
  "js_truthy JUndefined = False"
| "js_truthy JNull = False"
| "js_truthy (JBool b) = b"
| "js_truthy (JNum n) = (n \<noteq> NaN \<and> n \<noteq> Fin 0)"
| "js_truthy (JStr s) = (s \<noteq> [])"
| "js_truthy (JArr xs) = True"
| "js_truthy (JObj kvs) = True"

text \<open>
  \<open>v.k\<close> for the property names the source reads (none of them is inherited by an
  object, and \<open>length\<close> is the only one an array or a string has).
\<close>

fun get_prop :: "jsval \<Rightarrow> string \<Rightarrow> js_error + jsval" where
  "get_prop JUndefined k = Inl TypeError"
| "get_prop JNull k = Inl TypeError"
| "get_prop (JObj kvs) k = Inr (case map_of kvs k of None \<Rightarrow> JUndefined | Some v \<Rightarrow> v)"
| "get_prop (JArr xs) k =
     Inr (if k = ''length'' then JNum (Fin (real (length xs))) else JUndefined)"
| "get_prop (JStr s) k =
     Inr (if k = ''length'' then JNum (Fin (real (length s))) else JUndefined)"
| "get_prop (JBool b) k = Inr JUndefined"
| "get_prop (JNum n) k = Inr JUndefined"

text \<open>The decimal name of an index, the key under which an object holds it.\<close>

definition digit_char :: "nat \<Rightarrow> char" where
  "digit_char d = ''0123456789'' ! d"

fun index_key :: "nat \<Rightarrow> string" where
  "index_key n = (if n < 10 then [digit_char n] else index_key (n div 10) @ [digit_char (n mod 10)])"

declare index_key.simps [simp del]

text \<open>\<open>v[i]\<close>\<close>

fun js_index :: "jsval \<Rightarrow> nat \<Rightarrow> js_error + jsval" where
  "js_index JUndefined i = Inl TypeError"
| "js_index JNull i = Inl TypeError"
| "js_index (JArr xs) i = Inr (if i < length xs then xs ! i else JUndefined)"
| "js_index (JStr s) i = Inr (if i < length s then JStr [s ! i] else JUndefined)"
| "js_index (JObj kvs) i =
     Inr (case map_of kvs (index_key i) of None \<Rightarrow> JUndefined | Some v \<Rightarrow> v)"
| "js_index (JBool b) i = Inr JUndefined"
| "js_index (JNum n) i = Inr JUndefined"

text \<open>
  Method calls. A value from \<open>JSON.parse\<close> holds no function, so \<open>reverse\<close> and
  \<open>map\<close> exist on arrays only and \<open>startsWith\<close> on strings only; on anything else
  the call throws.
\<close>

definition js_reverse :: "jsval \<Rightarrow> js_error + jsval" where
  "js_reverse v = (case v of JArr xs \<Rightarrow> Inr (JArr (rev xs)) | _ \<Rightarrow> Inl TypeError)"

definition js_startsWith :: "jsval \<Rightarrow> string \<Rightarrow> js_error + bool" where
  "js_startsWith v p = (case v of JStr s \<Rightarrow> Inr (take (length p) s = p) | _ \<Rightarrow> Inl TypeError)"

definition js_map :: "(jsval \<Rightarrow> js_error + jsval) \<Rightarrow> jsval \<Rightarrow> js_error + jsval" where
  "js_map f v =
     (case v of JArr xs \<Rightarrow> ebind (emap f xs) (\<lambda>ys. Inr (JArr ys)) | _ \<Rightarrow> Inl TypeError)"

text \<open>
  Conversion to a string throws for an object whose own \<open>toString\<close> property hides
  the inherited method, and for an array that holds such an object.
\<close>

fun throws_toString :: "jsval \<Rightarrow> bool" where
  "throws_toString (JObj kvs) = (map_of kvs ''toString'' \<noteq> None)"
| "throws_toString (JArr xs) = list_ex throws_toString xs"
| "throws_toString v = False"

text \<open>
  The string of a value that converts. The digits of a number are those of a double, so
  their rendering \<open>numToString\<close> is a parameter.
\<close>

fun join_commas :: "string list \<Rightarrow> string" where
  "join_commas [] = []"
| "join_commas [s] = s"
| "join_commas (s # t # ts) = s @ '','' @ join_commas (t # ts)"

fun to_str :: "(jsnum \<Rightarrow> string) \<Rightarrow> jsval \<Rightarrow> string" where
  "to_str numToString JUndefined = ''undefined''"
| "to_str numToString JNull = ''null''"
| "to_str numToString (JBool b) = (if b then ''true'' else ''false'')"
| "to_str numToString (JNum n) = numToString n"
| "to_str numToString (JStr s) = s"
| "to_str numToString (JObj kvs) = ''[object Object]''"
| "to_str numToString (JArr xs) =
     join_commas
       (map (\<lambda>x. if x = JUndefined \<or> x = JNull then [] else to_str numToString x) xs)"

text \<open>\<open>v.toString()\<close>\<close>

definition js_toString :: "(jsnum \<Rightarrow> string) \<Rightarrow> jsval \<Rightarrow> js_error + string" where
  "js_toString numToString v =
     (if v = JUndefined \<or> v = JNull \<or> throws_toString v then Inl TypeError
      else Inr (to_str numToString v))"

text \<open>
  \<open>v > 0\<close>. The value is converted to a number: a string by reading all of it as a
  numeric literal (white space around it dropped, the empty string being 0), an array
  through the string that joins its elements.
\<close>

definition trim :: "string \<Rightarrow> string" where
  "trim s = rev (dropWhile is_space (rev (dropWhile is_space s)))"

definition radix_digit :: "char \<Rightarrow> nat option" where
  "radix_digit c =
     (case digit_val c of
        Some d \<Rightarrow> Some d
      | None \<Rightarrow>
          map_of
            [(CHR ''a'', 10), (CHR ''b'', 11), (CHR ''c'', 12), (CHR ''d'', 13),
             (CHR ''e'', 14), (CHR ''f'', 15), (CHR ''A'', 10), (CHR ''B'', 11),
             (CHR ''C'', 12), (CHR ''D'', 13), (CHR ''E'', 14), (CHR ''F'', 15)] c)"

definition radix_prefix :: "string \<Rightarrow> nat option" where
  "radix_prefix s =
     (case s of
        c0 # c1 # _ \<Rightarrow>
          if c0 \<noteq> CHR ''0'' then None
          else if c1 = CHR ''x'' \<or> c1 = CHR ''X'' then Some 16
          else if c1 = CHR ''o'' \<or> c1 = CHR ''O'' then Some 8
          else if c1 = CHR ''b'' \<or> c1 = CHR ''B'' then Some 2
          else None
      | _ \<Rightarrow> None)"

definition radix_value :: "nat \<Rightarrow> string \<Rightarrow> jsnum" where
  "radix_value b ds =
     (if ds \<noteq> [] \<and> list_all (\<lambda>c. case radix_digit c of Some d \<Rightarrow> d < b | None \<Rightarrow> False) ds
      then Fin (real (foldl (\<lambda>acc c. b * acc + (case radix_digit c of Some d \<Rightarrow> d | None \<Rightarrow> 0))
                        0 ds))
      else NaN)"

definition string_to_number :: "string \<Rightarrow> jsnum" where
  "string_to_number s =
     (let t = trim s
      in if t = [] then Fin 0
         else
           (case radix_prefix t of
              Some b \<Rightarrow> radix_value b (drop 2 t)
            | None \<Rightarrow>
                (case scan_signed t of
                   None \<Rightarrow> NaN
                 | Some vr \<Rightarrow> if snd vr = [] then fst vr else NaN)))"

fun to_number :: "jsval \<Rightarrow> js_error + jsnum" where
  "to_number JUndefined = Inr NaN"
| "to_number JNull = Inr (Fin 0)"
| "to_number (JBool b) = Inr (Fin (if b then 1 else 0))"
| "to_number (JNum n) = Inr n"
| "to_number (JStr s) = Inr (string_to_number s)"
| "to_number (JObj kvs) = (if throws_toString (JObj kvs) then Inl TypeError else Inr NaN)"
| "to_number (JArr []) = Inr (Fin 0)"
| "to_number (JArr [x]) =
     (if throws_toString x then Inl TypeError
      else if x = JUndefined \<or> x = JNull then Inr (Fin 0)
      else (case x of JBool b \<Rightarrow> Inr NaN | _ \<Rightarrow> to_number x))"
| "to_number (JArr (x # y # zs)) =
     (if list_ex throws_toString (x # y # zs) then Inl TypeError else Inr NaN)"

definition js_gt0 :: "jsval \<Rightarrow> js_error + bool" where
  "js_gt0 v = ebind (to_number v) (\<lambda>n. Inr (jgt n (Fin 0)))"

section \<open>The venue adapters: parse\<close>

text \<open>
  A \<open>parse\<close> returns \<open>None\<close> where the source falls off the end of the function
  (it returns \<open>undefined\<close>), the book it built otherwise, and \<open>Inl\<close> where it throws.
\<close>

datatype venue = OKX | Bybit | Deribit

definition OKX_parse :: "jsval \<Rightarrow> js_error + jsval book option" where
  "OKX_parse data =
     ebind (get_prop data ''arg'') (\<lambda>arg.
       if \<not> js_truthy arg then Inr None
       else ebind (get_prop arg ''channel'') (\<lambda>channel.
         if channel \<noteq> JStr ''books'' then Inr None
         else ebind (get_prop data ''data'') (\<lambda>d.
           if \<not> js_truthy d then Inr None
           else ebind (get_prop d ''length'') (\<lambda>len.
             ebind (js_gt0 len) (\<lambda>positive.
               if \<not> positive then Inr None
               else ebind (js_index d 0) (\<lambda>d0.
                 ebind (get_prop d0 ''bids'') (\<lambda>bs.
                   ebind (get_prop d0 ''asks'') (\<lambda>as.
                     ebind (js_reverse as) (\<lambda>reversed.
                       Inr (Some \<lparr>bids = bs, asks = reversed\<rparr>))))))))))"

definition Bybit_parse :: "jsval \<Rightarrow> js_error + jsval book option" where
  "Bybit_parse data =
     ebind (get_prop data ''topic'') (\<lambda>topic.
       if \<not> js_truthy topic then Inr None
       else ebind (js_startsWith topic ''orderbook.50'') (\<lambda>matches.
         if \<not> matches then Inr None
         else ebind (get_prop data ''data'') (\<lambda>d.
           if \<not> js_truthy d then Inr None
           else ebind (get_prop d ''b'') (\<lambda>bs.
             ebind (get_prop d ''a'') (\<lambda>as.
               Inr (Some \<lparr>bids = bs, asks = as\<rparr>))))))"

text \<open>\<open>b => [b[0].toString(), b[1].toString()]\<close>\<close>

definition level_strings :: "(jsnum \<Rightarrow> string) \<Rightarrow> jsval \<Rightarrow> js_error + jsval" where
  "level_strings numToString b =
     ebind (js_index b 0) (\<lambda>p.
       ebind (js_toString numToString p) (\<lambda>ps.
         ebind (js_index b 1) (\<lambda>q.
           ebind (js_toString numToString q) (\<lambda>qs.
             Inr (JArr [JStr ps, JStr qs])))))"

definition Deribit_parse :: "(jsnum \<Rightarrow> string) \<Rightarrow> jsval \<Rightarrow> js_error + jsval book option" where
  "Deribit_parse numToString data =
     ebind (get_prop data ''params'') (\<lambda>params.
       if \<not> js_truthy params then Inr None
       else ebind (get_prop params ''channel'') (\<lambda>channel.
         ebind (js_startsWith channel ''book.'') (\<lambda>matches.
           if \<not> matches then Inr None
           else ebind (get_prop params ''data'') (\<lambda>d.
             if \<not> js_truthy d then Inr None
             else ebind (get_prop d ''bids'') (\<lambda>bs.
               ebind (get_prop d ''asks'') (\<lambda>as.
                 ebind (js_map (level_strings numToString) bs) (\<lambda>bs'.
                   ebind (js_map (level_strings numToString) as) (\<lambda>as'.
                     Inr (Some \<lparr>bids = bs', asks = as'\<rparr>)))))))))"

definition parse :: "(jsnum \<Rightarrow> string) \<Rightarrow> venue \<Rightarrow> jsval \<Rightarrow> js_error + jsval book option" where
  "parse numToString v data =
     (case v of
        OKX \<Rightarrow> OKX_parse data
      | Bybit \<Rightarrow> Bybit_parse data
      | Deribit \<Rightarrow> Deribit_parse numToString data)"

section \<open>The message handler: onmessage\<close>

text \<open>
  \<open>parsed\<close> is what \<open>JSON.parse(event.data)\<close> does: it throws \<open>SyntaxError\<close> on a
  text that is not JSON and returns the value otherwise. The handler has no
  \<open>try\<close>: what \<open>JSON.parse\<close>, the keep-alive test or \<open>parse\<close> throws leaves it.
  The result is the hook's \<open>orderbook\<close> state after the handler.
\<close>

definition onmessage ::
  "(jsnum \<Rightarrow> string) \<Rightarrow> venue \<Rightarrow> js_error + jsval \<Rightarrow> jsval book \<Rightarrow> js_error + jsval book" where
  "onmessage numToString v parsed orderbook =
     ebind parsed (\<lambda>data.
       ebind (get_prop data ''event'') (\<lambda>ev.
         if ev = JStr ''pong'' then Inr orderbook
         else ebind (get_prop data ''op'') (\<lambda>op.
           if op = JStr ''pong'' then Inr orderbook
           else ebind (if v = Deribit
                       then ebind (get_prop data ''method'') (\<lambda>m. Inr (m = JStr ''heartbeat''))
                       else Inr False) (\<lambda>heartbeat.
             if heartbeat then Inr orderbook
             else ebind (parse numToString v data) (\<lambda>newOrderbook.
               case newOrderbook of
                 None \<Rightarrow> Inr orderbook
               | Some b \<Rightarrow> Inr b)))))"

section \<open>The canonical book's ordering\<close>

text \<open>
  The ladder a parsed value stands for, when it is an array of arrays of strings and
  numbers.
\<close>

fun cell_of :: "jsval \<Rightarrow> cell option" where
  "cell_of JUndefined = Some Undefined"
| "cell_of (JStr s) = Some (Str s)"
| "cell_of (JNum n) = Some (Num n)"
| "cell_of v = None"

definition level_of :: "jsval \<Rightarrow> level option" where
  "level_of v = (case v of JArr xs \<Rightarrow> those (map cell_of xs) | _ \<Rightarrow> None)"

definition ladder_of :: "jsval \<Rightarrow> ladder option" where
  "ladder_of v = (case v of JArr ls \<Rightarrow> those (map level_of ls) | _ \<Rightarrow> None)"

definition levelPrice :: "level \<Rightarrow> jsnum" where
  "levelPrice l = parseFloat (nth_cell l 0)"

definition levelSize :: "level \<Rightarrow> jsnum" where
  "levelSize l = parseFloat (nth_cell l 1)"

text \<open>
  The invariants of a canonical book: bids strictly descending and asks strictly
  ascending by price (so no price twice on a side).
\<close>

definition bids_descending :: "ladder \<Rightarrow> bool" where
  "bids_descending ls = sorted_wrt jgt (map levelPrice ls)"

definition asks_ascending :: "ladder \<Rightarrow> bool" where
  "asks_ascending ls = sorted_wrt jlt (map levelPrice ls)"

section \<open>The walk as the specification words it\<close>

text \<open>
  Walk the levels in order; at each level fill the minimum of the remaining quantity
  and the level's size; stop once the remaining quantity is at or below zero or the
  levels are exhausted. \<open>spec_fills\<close> lists the fill of each level visited.
\<close>

fun spec_fills :: "jsnum \<Rightarrow> ladder \<Rightarrow> jsnum list" where
  "spec_fills remaining [] = []"
| "spec_fills remaining (l # ls) =
     (if jle remaining (Fin 0) then []
      else Math_min remaining (levelSize l)
           # spec_fills (jsub remaining (Math_min remaining (levelSize l))) ls)"

definition spec_filledQuantity :: "jsnum \<Rightarrow> ladder \<Rightarrow> jsnum" where
  "spec_filledQuantity q ls = foldl jadd (Fin 0) (spec_fills q ls)"

definition spec_totalCost :: "jsnum \<Rightarrow> ladder \<Rightarrow> jsnum" where
  "spec_totalCost q ls =
     foldl jadd (Fin 0) (map2 (\<lambda>f l. jmul f (levelPrice l)) (spec_fills q ls) ls)"

text \<open>A level a limit order may fill, by the order's side.\<close>

fun eligible :: "side \<Rightarrow> jsnum \<Rightarrow> level \<Rightarrow> bool" where
  "eligible Buy limitPrice l = jle (levelPrice l) limitPrice"
| "eligible Sell limitPrice l = jge (levelPrice l) limitPrice"

text \<open>
  \<open>r\<close> is the index of the first element of \<open>xs\<close> that satisfies \<open>P\<close>, and \<open>-1\<close>
  when none does.
\<close>

definition first_index :: "('a \<Rightarrow> bool) \<Rightarrow> 'a list \<Rightarrow> int \<Rightarrow> bool" where
  "first_index P xs r =
     (if list_ex P xs
      then 0 \<le> r \<and> nat r < length xs \<and> P (xs ! nat r) \<and> \<not> list_ex P (take (nat r) xs)
      else r = - 1)"

section \<open>Example inputs\<close>

text \<open>The ladders of the specification's examples, and an order as the form submits it.\<close>

definition example_asks :: ladder where
  "example_asks =
     [[Num (Fin 100), Num (Fin 1)], [Num (Fin 101), Num (Fin 2)], [Num (Fin 102), Num (Fin 5)]]"

definition example_bids :: ladder where
  "example_bids = [[Num (Fin 99), Num (Fin 1)], [Num (Fin 98), Num (Fin 2)]]"

definition form_order :: "orderType \<Rightarrow> side \<Rightarrow> string \<Rightarrow> string \<Rightarrow> string \<Rightarrow> order" where
  "form_order t sd p q d =
     \<lparr>symbol = ''BTC-USD-SWAP'', orderType = t, side = sd, price = Str p, quantity = Str q,
      delay = d\<rparr>"

text \<open>
  A snapshot as OKX sends it on the \<open>books\<close> channel (a level is price, size, a
  deprecated field and the number of orders; the asks come lowest price first), and
  the same ladders in a Bybit message.
\<close>

definition okx_level :: "string \<Rightarrow> string \<Rightarrow> jsval" where
  "okx_level p q = JArr [JStr p, JStr q, JStr ''0'', JStr ''1'']"

definition okx_books_message :: jsval where
  "okx_books_message =
     JObj [(''arg'', JObj [(''channel'', JStr ''books''), (''instId'', JStr ''BTC-USD-SWAP'')]),
           (''action'', JStr ''snapshot''),
           (''data'', JArr [JObj
              [(''asks'', JArr [okx_level ''100'' ''1'', okx_level ''101'' ''2'']),
               (''bids'', JArr [okx_level ''99'' ''1'', okx_level ''98'' ''3'']),
               (''ts'', JStr ''1597026383085'')]])]"

definition bybit_orderbook_message :: jsval where
  "bybit_orderbook_message =
     JObj [(''topic'', JStr ''orderbook.50.BTCUSDT''),
           (''type'', JStr ''snapshot''),
           (''data'', JObj
              [(''s'', JStr ''BTCUSDT''),
               (''b'', JArr [JArr [JStr ''99'', JStr ''1''], JArr [JStr ''98'', JStr ''3'']]),
               (''a'', JArr [JArr [JStr ''100'', JStr ''1''], JArr [JStr ''101'', JStr ''2'']])])]"

text \<open>A book whose two sides are ladders that satisfy the ordering invariants.\<close>

definition canonical :: "jsval book \<Rightarrow> bool" where
  "canonical b =
     (case ladder_of (bids b) of
        None \<Rightarrow> False
      | Some bs \<Rightarrow>
          (case ladder_of (asks b) of
             None \<Rightarrow> False
           | Some as \<Rightarrow> bids_descending bs \<and> asks_ascending as))"

text \<open>
  A Deribit notification whose \<open>params\<close> has no \<open>channel\<close>, and the empty book a
  session starts from.
\<close>

definition deribit_no_channel_message :: jsval where
  "deribit_no_channel_message =
     JObj [(''jsonrpc'', JStr ''2.0''),
           (''method'', JStr ''subscription''),
           (''params'', JObj [(''data'', JObj [(''bids'', JArr []), (''asks'', JArr [])])])]"

definition empty_orderbook :: "jsval book" where
  "empty_orderbook = \<lparr>bids = JArr [], asks = JArr []\<rparr>"

text \<open>
  A page that shows the example book, a book published later, and a market Buy of 10
  submitted with a delay of 5 seconds.
\<close>

definition example_page :: page where
  "example_page =
     \<lparr>currentOrderbook = \<lparr>bids = example_bids, asks = example_asks\<rparr>,
      symbolState = ''BTC-USD-SWAP'', simulatedOrder = None, simulationMetrics = None,
      simulationTimeout = None\<rparr>"

definition later_book :: "ladder book" where
  "later_book = \<lparr>bids = [[Num (Fin 199), Num (Fin 5)]], asks = [[Num (Fin 200), Num (Fin 5)]]\<rparr>"

definition delayed_order :: order where
  "delayed_order = form_order Market Buy [] ''10'' ''5''"

section \<open>Evaluating the definitions\<close>

text \<open>The unfoldings that evaluate the parsers and the simulator on a given input.\<close>

lemmas scan_defs =
  parseFloat_str_def scan_signed_def scan_unsigned_def scan_exponent_def pow10_def
  digits_value_def is_digit_def digit_val_def is_space_def

lemmas sim_defs =
  calculateMetrics_def avgFillPrice_def run_walk_def bookSide_def entryPrice_def
  canFill_def nth_cell_def jgt_def jge_def jsub_def signed_inf_def Let_def

lemma parse_0 [simp]: "parseFloat_str ''0'' = Fin 0"
  by (simp add: scan_defs)

lemma parse_1 [simp]: "parseFloat_str ''1'' = Fin 1"
  by (simp add: scan_defs)

lemma parse_2 [simp]: "parseFloat_str ''2'' = Fin 2"
  by (simp add: scan_defs)

lemma parse_10 [simp]: "parseFloat_str ''10'' = Fin 10"
  by (simp add: scan_defs)

lemma parse_100 [simp]: "parseFloat_str ''100'' = Fin 100"
  by (simp add: scan_defs)

section \<open>The loops against the specified walk\<close>

text \<open>
  While the remaining quantity is not at or below zero at the head of the loop, the
  source's loops (which test at the end of the body) and the specified walk (which tests
  before a level) visit the same levels and fill the same amounts.
\<close>

lemma jgt_not_jle: "jgt x (Fin 0) \<Longrightarrow> \<not> jle x (Fin 0)"
  by (cases x) (auto simp: jgt_def)

lemma spec_fills_done: "jle r (Fin 0) \<Longrightarrow> spec_fills r ls = []"
  by (cases ls) auto

lemma market_walk_spec:
  "\<not> jle (qtyToFill w) (Fin 0) \<Longrightarrow>
   filledQty (market_walk ls w) = foldl jadd (filledQty w) (spec_fills (qtyToFill w) ls) \<and>
   totalCost (market_walk ls w) =
     foldl jadd (totalCost w)
       (map2 (\<lambda>f l. jmul f (levelPrice l)) (spec_fills (qtyToFill w) ls) ls)"
proof (induction ls arbitrary: w)
  case Nil
  then show ?case by simp
next
  case (Cons l ls)
  let ?f = "Math_min (qtyToFill w) (levelSize l)"
  let ?w' = "\<lparr>filledQty = jadd (filledQty w) ?f,
              totalCost = jadd (totalCost w) (jmul ?f (levelPrice l)),
              qtyToFill = jsub (qtyToFill w) ?f\<rparr>"
  show ?case
  proof (cases "jle (jsub (qtyToFill w) ?f) (Fin 0)")
    case True
    with Cons.prems show ?thesis
      by (simp add: Let_def levelPrice_def levelSize_def spec_fills_done)
  next
    case False
    then have "\<not> jle (qtyToFill ?w') (Fin 0)" by simp
    from Cons.IH[OF this] False Cons.prems show ?thesis
      by (simp add: Let_def levelPrice_def levelSize_def)
  qed
qed

lemma canFill_eligible: "canFill sd lp l = eligible sd lp l"
  by (cases sd) (simp_all add: canFill_def levelPrice_def)

lemma limit_walk_skip:
  "\<not> eligible sd lp l \<Longrightarrow> \<not> jle (qtyToFill w) (Fin 0) \<Longrightarrow>
   limit_walk sd lp (l # ls) w = limit_walk sd lp ls w"
  by (simp add: canFill_eligible)

lemma limit_walk_spec:
  "\<not> jle (qtyToFill w) (Fin 0) \<Longrightarrow>
   filledQty (limit_walk sd lp ls w) =
     foldl jadd (filledQty w) (spec_fills (qtyToFill w) (filter (eligible sd lp) ls))"
proof (induction ls arbitrary: w)
  case Nil
  then show ?case by simp
next
  case (Cons l ls)
  show ?case
  proof (cases "eligible sd lp l")
    case False
    with Cons show ?thesis by (simp add: canFill_eligible)
  next
    case True
    let ?f = "Math_min (qtyToFill w) (levelSize l)"
    let ?w' = "w\<lparr>filledQty := jadd (filledQty w) ?f, qtyToFill := jsub (qtyToFill w) ?f\<rparr>"
    show ?thesis
    proof (cases "jle (jsub (qtyToFill w) ?f) (Fin 0)")
      case stop: True
      with True Cons.prems show ?thesis
        by (simp add: Let_def canFill_eligible levelSize_def spec_fills_done)
    next
      case go: False
      then have "\<not> jle (qtyToFill ?w') (Fin 0)" by simp
      from Cons.IH[OF this] go True Cons.prems show ?thesis
        by (simp add: Let_def canFill_eligible levelSize_def)
    qed
  qed
qed

text \<open>The side the source selects: the asks for a Buy, the bids for a Sell.\<close>

lemma bookSide_Buy: "side order = Buy \<Longrightarrow> bookSide order book = asks book"
  by (simp add: bookSide_def)

lemma bookSide_Sell: "side order = Sell \<Longrightarrow> bookSide order book = bids book"
  by (cases "side order") (simp_all add: bookSide_def)

lemma market_order_spec:
  assumes "orderType order = Market" and "jgt (parseFloat (quantity order)) (Fin 0)"
  shows "filledQty (run_walk order book) =
           spec_filledQuantity (parseFloat (quantity order)) (bookSide order book)
         \<and> totalCost (run_walk order book) =
           spec_totalCost (parseFloat (quantity order)) (bookSide order book)"
  using assms market_walk_spec[of "\<lparr>filledQty = Fin 0, totalCost = Fin 0,
      qtyToFill = parseFloat (quantity order)\<rparr>" "bookSide order book"]
  by (simp add: run_walk_def spec_filledQuantity_def spec_totalCost_def jgt_not_jle)

lemma market_fillPercent:
  assumes "jgt (parseFloat (quantity order)) (Fin 0)"
  shows "fillPercent (calculateMetrics toFixed2 order book) =
           jmul (jdiv (filledQty (run_walk order book)) (parseFloat (quantity order))) (Fin 100)"
  using assms by (simp add: calculateMetrics_def Let_def)

text \<open>
  The examples, each for every content of the side the order does not consume.
\<close>

lemma example_buy_2:
  "filledQty (run_walk (form_order Market Buy [] ''2'' ''0'') \<lparr>bids = bs, asks = example_asks\<rparr>)
     = Fin 2
   \<and> totalCost (run_walk (form_order Market Buy [] ''2'' ''0'')
        \<lparr>bids = bs, asks = example_asks\<rparr>) = Fin 201
   \<and> avgFillPrice (form_order Market Buy [] ''2'' ''0'') \<lparr>bids = bs, asks = example_asks\<rparr>
     = Fin (201 / 2)
   \<and> fillPercent (calculateMetrics toFixed2 (form_order Market Buy [] ''2'' ''0'')
        \<lparr>bids = bs, asks = example_asks\<rparr>) = Fin 100"
  by (simp add: sim_defs form_order_def example_asks_def)

lemma example_buy_10:
  "filledQty (run_walk (form_order Market Buy [] ''10'' ''0'') \<lparr>bids = bs, asks = example_asks\<rparr>)
     = Fin 8
   \<and> totalCost (run_walk (form_order Market Buy [] ''10'' ''0'')
        \<lparr>bids = bs, asks = example_asks\<rparr>) = Fin 812
   \<and> avgFillPrice (form_order Market Buy [] ''10'' ''0'') \<lparr>bids = bs, asks = example_asks\<rparr>
     = Fin ((100 * 1 + 101 * 2 + 102 * 5) / 8)
   \<and> fillPercent (calculateMetrics toFixed2 (form_order Market Buy [] ''10'' ''0'')
        \<lparr>bids = bs, asks = example_asks\<rparr>) = Fin 80"
  by (simp add: sim_defs form_order_def example_asks_def)

lemma example_sell_2:
  "filledQty (run_walk (form_order Market Sell [] ''2'' ''0'') \<lparr>bids = example_bids, asks = a\<rparr>)
     = Fin 2
   \<and> totalCost (run_walk (form_order Market Sell [] ''2'' ''0'')
        \<lparr>bids = example_bids, asks = a\<rparr>) = Fin 197
   \<and> avgFillPrice (form_order Market Sell [] ''2'' ''0'') \<lparr>bids = example_bids, asks = a\<rparr>
     = Fin (197 / 2)
   \<and> fillPercent (calculateMetrics toFixed2 (form_order Market Sell [] ''2'' ''0'')
        \<lparr>bids = example_bids, asks = a\<rparr>) = Fin 100"
  by (simp add: sim_defs form_order_def example_bids_def)

lemma example_sell_limit:
  "filledQty (run_walk (form_order Limit Sell ''100'' ''1'' ''0'')
      \<lparr>bids = example_bids, asks = a\<rparr>) = Fin 0
   \<and> fillPercent (calculateMetrics toFixed2 (form_order Limit Sell ''100'' ''1'' ''0'')
      \<lparr>bids = example_bids, asks = a\<rparr>) = Fin 0"
  by (simp add: sim_defs form_order_def example_bids_def)

lemma example_buy_limit:
  "filledQty (run_walk (form_order Limit Buy ''100'' ''2'' ''0'')
      \<lparr>bids = bs, asks = example_asks\<rparr>) = Fin 1
   \<and> fillPercent (calculateMetrics toFixed2 (form_order Limit Buy ''100'' ''2'' ''0'')
      \<lparr>bids = bs, asks = example_asks\<rparr>) = Fin 50"
  by (simp add: sim_defs form_order_def example_asks_def)

section \<open>The market order\<close>

text \<open>
  Claim C5. A market order with a positive quantity walks the side opposite to its own:
  a Buy the asks, a Sell the bids. The loop's filled quantity and total cost are those
  of the specified walk over that ladder (fill \<open>min(remaining, levelSize)\<close> at each
  level, cost the fill times the level's price, stop when the remaining quantity is at
  or below zero or the levels end); the average fill price is total cost over filled
  quantity and the fill percent is filled quantity over order quantity times 100. On
  asks \<open>[[100,1],[101,2],[102,5]]\<close>, whatever the bids, a Buy of 2 fills 2 at a cost of
  201, an average of 100.5 and 100 percent, and a Buy of 10 fills 8 at a cost of 812, 80
  percent, at an average of \<open>(100*1 + 101*2 + 102*5) / 8\<close>. On bids
  \<open>[[99,1],[98,2]]\<close>, whatever the asks, a Sell of 2 fills 2 at a cost of 197.
\<close>

theorem market_walk_as_specified:
  "(orderType order = Market \<and> side order = Buy
      \<and> jgt (parseFloat (quantity order)) (Fin 0) \<longrightarrow>
      filledQty (run_walk order book) =
        spec_filledQuantity (parseFloat (quantity order)) (asks book)
      \<and> totalCost (run_walk order book) =
        spec_totalCost (parseFloat (quantity order)) (asks book)
      \<and> avgFillPrice order book =
        jdiv (spec_totalCost (parseFloat (quantity order)) (asks book))
             (spec_filledQuantity (parseFloat (quantity order)) (asks book))
      \<and> fillPercent (calculateMetrics toFixed2 order book) =
        jmul (jdiv (spec_filledQuantity (parseFloat (quantity order)) (asks book))
                   (parseFloat (quantity order))) (Fin 100))
   \<and> (orderType order = Market \<and> side order = Sell
      \<and> jgt (parseFloat (quantity order)) (Fin 0) \<longrightarrow>
      filledQty (run_walk order book) =
        spec_filledQuantity (parseFloat (quantity order)) (bids book)
      \<and> totalCost (run_walk order book) =
        spec_totalCost (parseFloat (quantity order)) (bids book)
      \<and> avgFillPrice order book =
        jdiv (spec_totalCost (parseFloat (quantity order)) (bids book))
             (spec_filledQuantity (parseFloat (quantity order)) (bids book))
      \<and> fillPercent (calculateMetrics toFixed2 order book) =
        jmul (jdiv (spec_filledQuantity (parseFloat (quantity order)) (bids book))
                   (parseFloat (quantity order))) (Fin 100))
   \<and> filledQty (run_walk (form_order Market Buy [] ''2'' ''0'')
        \<lparr>bids = bs, asks = example_asks\<rparr>) = Fin 2
   \<and> totalCost (run_walk (form_order Market Buy [] ''2'' ''0'')
        \<lparr>bids = bs, asks = example_asks\<rparr>) = Fin 201
   \<and> avgFillPrice (form_order Market Buy [] ''2'' ''0'') \<lparr>bids = bs, asks = example_asks\<rparr>
        = Fin (201 / 2)
   \<and> fillPercent (calculateMetrics toFixed2 (form_order Market Buy [] ''2'' ''0'')
        \<lparr>bids = bs, asks = example_asks\<rparr>) = Fin 100
   \<and> filledQty (run_walk (form_order Market Buy [] ''10'' ''0'')
        \<lparr>bids = bs, asks = example_asks\<rparr>) = Fin 8
   \<and> totalCost (run_walk (form_order Market Buy [] ''10'' ''0'')
        \<lparr>bids = bs, asks = example_asks\<rparr>) = Fin 812
   \<and> fillPercent (calculateMetrics toFixed2 (form_order Market Buy [] ''10'' ''0'')
        \<lparr>bids = bs, asks = example_asks\<rparr>) = Fin 80
   \<and> avgFillPrice (form_order Market Buy [] ''10'' ''0'') \<lparr>bids = bs, asks = example_asks\<rparr>
        = Fin ((100 * 1 + 101 * 2 + 102 * 5) / 8)
   \<and> filledQty (run_walk (form_order Market Sell [] ''2'' ''0'')
        \<lparr>bids = example_bids, asks = a\<rparr>) = Fin 2
   \<and> totalCost (run_walk (form_order Market Sell [] ''2'' ''0'')
        \<lparr>bids = example_bids, asks = a\<rparr>) = Fin 197"
proof -
  have general: "filledQty (run_walk order book) =
        spec_filledQuantity (parseFloat (quantity order)) (bookSide order book)
      \<and> totalCost (run_walk order book) =
        spec_totalCost (parseFloat (quantity order)) (bookSide order book)
      \<and> avgFillPrice order book =
        jdiv (spec_totalCost (parseFloat (quantity order)) (bookSide order book))
             (spec_filledQuantity (parseFloat (quantity order)) (bookSide order book))
      \<and> fillPercent (calculateMetrics toFixed2 order book) =
        jmul (jdiv (spec_filledQuantity (parseFloat (quantity order)) (bookSide order book))
                   (parseFloat (quantity order))) (Fin 100)"
    if m: "orderType order = Market" and q: "jgt (parseFloat (quantity order)) (Fin 0)"
    using market_order_spec[OF m q, of book] market_fillPercent[OF q, of toFixed2 book]
    by (simp add: avgFillPrice_def)
  have buy: "?thesis" if "side order = Buy"
    using general bookSide_Buy[OF that, of book] that
      example_buy_2[of bs toFixed2] example_buy_10[of bs toFixed2] example_sell_2[of a toFixed2]
    by simp
  have sell: "?thesis" if "side order = Sell"
    using general bookSide_Sell[OF that, of book] that
      example_buy_2[of bs toFixed2] example_buy_10[of bs toFixed2] example_sell_2[of a toFixed2]
    by simp
  show ?thesis using buy sell by (cases "side order") blast+
qed

theorem market_walk_as_specified_witness:
  "orderType (form_order Market Buy [] ''2'' ''0'') = Market
   \<and> side (form_order Market Buy [] ''2'' ''0'') = Buy
   \<and> jgt (parseFloat (quantity (form_order Market Buy [] ''2'' ''0''))) (Fin 0)
   \<and> spec_filledQuantity (Fin 2) example_asks = Fin 2
   \<and> spec_totalCost (Fin 2) example_asks = Fin 201
   \<and> filledQty (run_walk (form_order Market Buy [] ''2'' ''0'')
        \<lparr>bids = example_bids, asks = example_asks\<rparr>) = Fin 2
   \<and> totalCost (run_walk (form_order Market Buy [] ''2'' ''0'')
        \<lparr>bids = example_bids, asks = example_asks\<rparr>) = Fin 201
   \<and> orderType (form_order Market Sell [] ''2'' ''0'') = Market
   \<and> side (form_order Market Sell [] ''2'' ''0'') = Sell
   \<and> jgt (parseFloat (quantity (form_order Market Sell [] ''2'' ''0''))) (Fin 0)
   \<and> spec_filledQuantity (Fin 2) example_bids = Fin 2
   \<and> spec_totalCost (Fin 2) example_bids = Fin 197
   \<and> filledQty (run_walk (form_order Market Sell [] ''2'' ''0'')
        \<lparr>bids = example_bids, asks = example_asks\<rparr>) = Fin 2
   \<and> totalCost (run_walk (form_order Market Sell [] ''2'' ''0'')
        \<lparr>bids = example_bids, asks = example_asks\<rparr>) = Fin 197"
proof -
  let ?ob = "form_order Market Buy [] ''2'' ''0''"
  let ?os = "form_order Market Sell [] ''2'' ''0''"
  let ?b = "\<lparr>bids = example_bids, asks = example_asks\<rparr>"
  have mb: "orderType ?ob = Market" and sb: "side ?ob = Buy"
    and ms: "orderType ?os = Market" and ss: "side ?os = Sell"
    by (simp_all add: form_order_def)
  have qb: "jgt (parseFloat (quantity ?ob)) (Fin 0)"
    and qs: "jgt (parseFloat (quantity ?os)) (Fin 0)"
    by (simp_all add: form_order_def jgt_def)
  have eb: "parseFloat (quantity ?ob) = Fin 2" and es: "parseFloat (quantity ?os) = Fin 2"
    by (simp_all add: form_order_def)
  have sa: "spec_filledQuantity (Fin 2) example_asks = Fin 2"
    "spec_totalCost (Fin 2) example_asks = Fin 201"
    by (simp_all add: spec_filledQuantity_def spec_totalCost_def example_asks_def
        levelSize_def levelPrice_def nth_cell_def jsub_def)
  have sbd: "spec_filledQuantity (Fin 2) example_bids = Fin 2"
    "spec_totalCost (Fin 2) example_bids = Fin 197"
    by (simp_all add: spec_filledQuantity_def spec_totalCost_def example_bids_def
        levelSize_def levelPrice_def nth_cell_def jsub_def)
  from market_walk_as_specified[of ?ob ?b "\<lambda>x. []" "[]" "[]"] mb sb qb
  have "filledQty (run_walk ?ob ?b) = spec_filledQuantity (parseFloat (quantity ?ob)) (asks ?b)"
    and "totalCost (run_walk ?ob ?b) = spec_totalCost (parseFloat (quantity ?ob)) (asks ?b)"
    by blast+
  then have rb: "filledQty (run_walk ?ob ?b) = Fin 2" "totalCost (run_walk ?ob ?b) = Fin 201"
    by (simp_all add: eb sa)
  from market_walk_as_specified[of ?os ?b "\<lambda>x. []" "[]" "[]"] ms ss qs
  have "filledQty (run_walk ?os ?b) = spec_filledQuantity (parseFloat (quantity ?os)) (bids ?b)"
    and "totalCost (run_walk ?os ?b) = spec_totalCost (parseFloat (quantity ?os)) (bids ?b)"
    by blast+
  then have rs: "filledQty (run_walk ?os ?b) = Fin 2" "totalCost (run_walk ?os ?b) = Fin 197"
    by (simp_all add: es sbd)
  from mb sb qb sa rb ms ss qs sbd rs show ?thesis by blast
qed

section \<open>The limit order\<close>

lemma limit_order_spec:
  assumes "orderType order = Limit" and "jgt (parseFloat (quantity order)) (Fin 0)"
  shows "filledQty (run_walk order book) =
           spec_filledQuantity (parseFloat (quantity order))
             (filter (eligible (side order) (parseFloat (price order))) (bookSide order book))"
  using assms limit_walk_spec[of "\<lparr>filledQty = Fin 0, totalCost = Fin 0,
      qtyToFill = parseFloat (quantity order)\<rparr>" "side order" "parseFloat (price order)"
      "bookSide order book"]
  by (simp add: run_walk_def spec_filledQuantity_def jgt_not_jle)

text \<open>
  Claim C6. A limit order with a positive quantity consumes the side opposite to its
  own, and only the eligible levels of it: for a Buy the filled quantity is that of the
  specified walk over the asks whose price is at or below the limit price, for a Sell
  over the bids whose price is at or above it. A level that is not eligible leaves the
  loop's variables as they are and the loop goes on to the next level. On bids
  \<open>[[99,1],[98,2]]\<close>, whatever the asks, a Sell of 1 with limit price 100 fills
  nothing: the filled quantity and the fill percent are 0. On asks
  \<open>[[100,1],[101,2],[102,5]]\<close>, whatever the bids, a Buy of 2 with limit price 100
  fills 1, which is 50 percent.
\<close>

theorem limit_walk_fills_eligible_levels_only:
  "(orderType order = Limit \<and> side order = Buy
      \<and> jgt (parseFloat (quantity order)) (Fin 0) \<longrightarrow>
      filledQty (run_walk order book) =
        spec_filledQuantity (parseFloat (quantity order))
          (filter (\<lambda>l. jle (levelPrice l) (parseFloat (price order))) (asks book)))
   \<and> (orderType order = Limit \<and> side order = Sell
      \<and> jgt (parseFloat (quantity order)) (Fin 0) \<longrightarrow>
      filledQty (run_walk order book) =
        spec_filledQuantity (parseFloat (quantity order))
          (filter (\<lambda>l. jge (levelPrice l) (parseFloat (price order))) (bids book)))
   \<and> (\<not> eligible sd lp l \<and> jgt (qtyToFill w) (Fin 0) \<longrightarrow>
        limit_walk sd lp (l # ls) w = limit_walk sd lp ls w)
   \<and> filledQty (run_walk (form_order Limit Sell ''100'' ''1'' ''0'')
        \<lparr>bids = example_bids, asks = a\<rparr>) = Fin 0
   \<and> fillPercent (calculateMetrics toFixed2 (form_order Limit Sell ''100'' ''1'' ''0'')
        \<lparr>bids = example_bids, asks = a\<rparr>) = Fin 0
   \<and> filledQty (run_walk (form_order Limit Buy ''100'' ''2'' ''0'')
        \<lparr>bids = bs, asks = example_asks\<rparr>) = Fin 1
   \<and> fillPercent (calculateMetrics toFixed2 (form_order Limit Buy ''100'' ''2'' ''0'')
        \<lparr>bids = bs, asks = example_asks\<rparr>) = Fin 50"
proof -
  have eb: "eligible Buy (parseFloat (price order))
      = (\<lambda>l. jle (levelPrice l) (parseFloat (price order)))"
    and es: "eligible Sell (parseFloat (price order))
      = (\<lambda>l. jge (levelPrice l) (parseFloat (price order)))"
    by (simp_all add: fun_eq_iff)
  have buy: "filledQty (run_walk order book) =
        spec_filledQuantity (parseFloat (quantity order))
          (filter (\<lambda>l. jle (levelPrice l) (parseFloat (price order))) (asks book))"
    if "orderType order = Limit" "side order = Buy" "jgt (parseFloat (quantity order)) (Fin 0)"
    using limit_order_spec[OF that(1) that(3), of book] bookSide_Buy[OF that(2), of book]
      that(2) eb
    by simp
  have sell: "filledQty (run_walk order book) =
        spec_filledQuantity (parseFloat (quantity order))
          (filter (\<lambda>l. jge (levelPrice l) (parseFloat (price order))) (bids book))"
    if "orderType order = Limit" "side order = Sell" "jgt (parseFloat (quantity order)) (Fin 0)"
    using limit_order_spec[OF that(1) that(3), of book] bookSide_Sell[OF that(2), of book]
      that(2) es
    by simp
  have skip: "limit_walk sd lp (l # ls) w = limit_walk sd lp ls w"
    if "\<not> eligible sd lp l" "jgt (qtyToFill w) (Fin 0)"
    using limit_walk_skip[OF that(1) jgt_not_jle[OF that(2)]] .
  show ?thesis
    using buy sell skip example_sell_limit[of a toFixed2] example_buy_limit[of bs toFixed2]
    by blast
qed

theorem limit_walk_fills_eligible_levels_only_witness:
  "orderType (form_order Limit Buy ''100'' ''2'' ''0'') = Limit
   \<and> side (form_order Limit Buy ''100'' ''2'' ''0'') = Buy
   \<and> jgt (parseFloat (quantity (form_order Limit Buy ''100'' ''2'' ''0''))) (Fin 0)
   \<and> filter (\<lambda>l. jle (levelPrice l) (Fin 100)) example_asks = [[Num (Fin 100), Num (Fin 1)]]
   \<and> filledQty (run_walk (form_order Limit Buy ''100'' ''2'' ''0'')
        \<lparr>bids = example_bids, asks = example_asks\<rparr>) = Fin 1
   \<and> orderType (form_order Limit Sell ''99'' ''2'' ''0'') = Limit
   \<and> side (form_order Limit Sell ''99'' ''2'' ''0'') = Sell
   \<and> jgt (parseFloat (quantity (form_order Limit Sell ''99'' ''2'' ''0''))) (Fin 0)
   \<and> filter (\<lambda>l. jge (levelPrice l) (Fin 99)) example_bids = [[Num (Fin 99), Num (Fin 1)]]
   \<and> filledQty (run_walk (form_order Limit Sell ''99'' ''2'' ''0'')
        \<lparr>bids = example_bids, asks = example_asks\<rparr>) = Fin 1
   \<and> \<not> eligible Sell (Fin 100) [Num (Fin 99), Num (Fin 1)]
   \<and> jgt (qtyToFill \<lparr>filledQty = Fin 0, totalCost = Fin 0, qtyToFill = Fin 1\<rparr>) (Fin 0)
   \<and> limit_walk Sell (Fin 100) example_bids
        \<lparr>filledQty = Fin 0, totalCost = Fin 0, qtyToFill = Fin 1\<rparr>
      = limit_walk Sell (Fin 100) [[Num (Fin 98), Num (Fin 2)]]
        \<lparr>filledQty = Fin 0, totalCost = Fin 0, qtyToFill = Fin 1\<rparr>"
proof -
  let ?ob = "form_order Limit Buy ''100'' ''2'' ''0''"
  let ?os = "form_order Limit Sell ''99'' ''2'' ''0''"
  let ?b = "\<lparr>bids = example_bids, asks = example_asks\<rparr>"
  let ?w = "\<lparr>filledQty = Fin 0, totalCost = Fin 0, qtyToFill = Fin 1\<rparr>"
  have tb: "orderType ?ob = Limit" and sb: "side ?ob = Buy"
    and ts: "orderType ?os = Limit" and ss: "side ?os = Sell"
    by (simp_all add: form_order_def)
  have qb: "jgt (parseFloat (quantity ?ob)) (Fin 0)"
    and qs: "jgt (parseFloat (quantity ?os)) (Fin 0)"
    by (simp_all add: form_order_def jgt_def)
  have fb: "filter (\<lambda>l. jle (levelPrice l) (Fin 100)) example_asks
      = [[Num (Fin 100), Num (Fin 1)]]"
    by (simp add: example_asks_def levelPrice_def nth_cell_def)
  have fs: "filter (\<lambda>l. jge (levelPrice l) (Fin 99)) example_bids
      = [[Num (Fin 99), Num (Fin 1)]]"
    by (simp add: example_bids_def levelPrice_def nth_cell_def jge_def)
  have eb: "parseFloat (quantity ?ob) = Fin 2" "parseFloat (price ?ob) = Fin 100"
    and es: "parseFloat (quantity ?os) = Fin 2" "parseFloat (price ?os) = Fin 99"
    by (simp_all add: form_order_def scan_defs)
  have s1: "spec_filledQuantity (Fin 2) [[Num (Fin 100), Num (Fin 1)]] = Fin 1"
    and s2: "spec_filledQuantity (Fin 2) [[Num (Fin 99), Num (Fin 1)]] = Fin 1"
    by (simp_all add: spec_filledQuantity_def levelSize_def nth_cell_def jsub_def)
  have n: "\<not> eligible Sell (Fin 100) [Num (Fin 99), Num (Fin 1)]"
    by (simp add: levelPrice_def nth_cell_def jge_def)
  have r: "jgt (qtyToFill ?w) (Fin 0)" by (simp add: jgt_def)
  note inst_b = limit_walk_fills_eligible_levels_only[of ?ob ?b Sell "Fin 100"
      "[Num (Fin 99), Num (Fin 1)]" ?w "[[Num (Fin 98), Num (Fin 2)]]" "[]" "\<lambda>x. []" "[]"]
  note inst_s = limit_walk_fills_eligible_levels_only[of ?os ?b Sell "Fin 100"
      "[Num (Fin 99), Num (Fin 1)]" ?w "[[Num (Fin 98), Num (Fin 2)]]" "[]" "\<lambda>x. []" "[]"]
  from inst_b tb sb qb have "filledQty (run_walk ?ob ?b) =
      spec_filledQuantity (parseFloat (quantity ?ob))
        (filter (\<lambda>l. jle (levelPrice l) (parseFloat (price ?ob))) (asks ?b))"
    by blast
  then have a1: "filledQty (run_walk ?ob ?b) = Fin 1" by (simp add: eb fb s1)
  from inst_s ts ss qs have "filledQty (run_walk ?os ?b) =
      spec_filledQuantity (parseFloat (quantity ?os))
        (filter (\<lambda>l. jge (levelPrice l) (parseFloat (price ?os))) (bids ?b))"
    by blast
  then have a2: "filledQty (run_walk ?os ?b) = Fin 1" by (simp add: es fs s2)
  from inst_b n r have k: "limit_walk Sell (Fin 100)
      ([Num (Fin 99), Num (Fin 1)] # [[Num (Fin 98), Num (Fin 2)]]) ?w
      = limit_walk Sell (Fin 100) [[Num (Fin 98), Num (Fin 2)]] ?w"
    by blast
  from tb sb qb fb a1 ts ss qs fs a2 n r k show ?thesis by (simp add: example_bids_def)
qed

section \<open>Slippage, impact and the warning\<close>

text \<open>
  Claim C7. For a limit order, whatever the book, the returned slippage and impact are
  exactly 0.
\<close>

theorem limit_order_slippage_and_impact_zero:
  "orderType order = Limit \<Longrightarrow>
   slippage (calculateMetrics toFixed2 order book) = Fin 0
   \<and> impact (calculateMetrics toFixed2 order book) = Fin 0"
  by (simp add: calculateMetrics_def Let_def)

theorem limit_order_slippage_and_impact_zero_witness:
  "orderType (form_order Limit Buy ''102'' ''10'' ''0'') = Limit
   \<and> slippage (calculateMetrics (\<lambda>x. []) (form_order Limit Buy ''102'' ''10'' ''0'')
        \<lparr>bids = example_bids, asks = example_asks\<rparr>) = Fin 0
   \<and> impact (calculateMetrics (\<lambda>x. []) (form_order Limit Buy ''102'' ''10'' ''0'')
        \<lparr>bids = example_bids, asks = example_asks\<rparr>) = Fin 0"
proof -
  have t: "orderType (form_order Limit Buy ''102'' ''10'' ''0'') = Limit"
    by (simp add: form_order_def)
  from limit_order_slippage_and_impact_zero[OF t] t show ?thesis by simp
qed

text \<open>
  Claim C8. The returned warning is a non-empty string exactly when the returned
  slippage exceeds 0.5; otherwise it is the empty string.
\<close>

theorem warning_iff_slippage_above_half:
  "(warning (calculateMetrics toFixed2 order book) \<noteq> [])
     = jgt (slippage (calculateMetrics toFixed2 order book)) (Fin (1 / 2))
   \<and> (\<not> jgt (slippage (calculateMetrics toFixed2 order book)) (Fin (1 / 2)) \<longrightarrow>
        warning (calculateMetrics toFixed2 order book) = [])"
  by (simp add: calculateMetrics_def Let_def)

theorem warning_iff_slippage_above_half_witness:
  "slippage (calculateMetrics (\<lambda>x. []) (form_order Market Buy [] ''2'' ''0'')
      \<lparr>bids = [], asks = example_asks\<rparr>) = Fin (1 / 2)
   \<and> \<not> jgt (slippage (calculateMetrics (\<lambda>x. []) (form_order Market Buy [] ''2'' ''0'')
      \<lparr>bids = [], asks = example_asks\<rparr>)) (Fin (1 / 2))
   \<and> warning (calculateMetrics (\<lambda>x. []) (form_order Market Buy [] ''2'' ''0'')
      \<lparr>bids = [], asks = example_asks\<rparr>) = []
   \<and> slippage (calculateMetrics (\<lambda>x. []) (form_order Market Buy [] ''10'' ''0'')
      \<lparr>bids = [], asks = example_asks\<rparr>) = Fin (3 / 2)
   \<and> warning (calculateMetrics (\<lambda>x. []) (form_order Market Buy [] ''10'' ''0'')
      \<lparr>bids = [], asks = example_asks\<rparr>) \<noteq> []"
proof -
  let ?b = "\<lparr>bids = [], asks = example_asks\<rparr>"
  let ?m2 = "calculateMetrics (\<lambda>x. []) (form_order Market Buy [] ''2'' ''0'') ?b"
  let ?m10 = "calculateMetrics (\<lambda>x. []) (form_order Market Buy [] ''10'' ''0'') ?b"
  have s2: "slippage ?m2 = Fin (1 / 2)"
    by (simp add: sim_defs form_order_def example_asks_def)
  have s10: "slippage ?m10 = Fin (3 / 2)"
    by (simp add: sim_defs form_order_def example_asks_def)
  have n2: "\<not> jgt (slippage ?m2) (Fin (1 / 2))" by (simp add: s2 jgt_def)
  have g10: "jgt (slippage ?m10) (Fin (1 / 2))" by (simp add: s10 jgt_def)
  from warning_iff_slippage_above_half[of "\<lambda>x. []" "form_order Market Buy [] ''2'' ''0''" ?b] n2
  have w2: "warning ?m2 = []" by blast
  from warning_iff_slippage_above_half[of "\<lambda>x. []" "form_order Market Buy [] ''10'' ''0''" ?b] g10
  have w10: "warning ?m10 \<noteq> []" by blast
  from s2 n2 w2 s10 w10 show ?thesis by blast
qed

section \<open>The position in the book\<close>

lemma findIndex_from_none: "\<not> list_ex P xs \<Longrightarrow> findIndex_from k P xs = - 1"
  by (induction xs arbitrary: k) auto

lemma findIndex_from_first:
  "list_ex P xs \<Longrightarrow> findIndex_from k P xs = int (k + length (takeWhile (\<lambda>x. \<not> P x) xs))"
  by (induction xs arbitrary: k) auto

lemma findIndex_first_index: "first_index P xs (findIndex P xs)"
proof (cases "list_ex P xs")
  case False
  then show ?thesis by (simp add: first_index_def findIndex_def findIndex_from_none)
next
  case True
  let ?n = "length (takeWhile (\<lambda>x. \<not> P x) xs)"
  have r: "findIndex P xs = int ?n"
    using True by (simp add: findIndex_def findIndex_from_first)
  from True have "\<not> (\<forall>x\<in>set xs. \<not> P x)" by (simp add: list_ex_iff)
  then have "takeWhile (\<lambda>x. \<not> P x) xs \<noteq> xs" by simp
  then have less: "?n < length xs"
    using length_takeWhile_le[of "\<lambda>x. \<not> P x" xs]
    by (metis le_neq_implies_less takeWhile_eq_take take_all order_refl)
  have hit: "P (xs ! ?n)" using nth_length_takeWhile[OF less] by simp
  have "take ?n xs = takeWhile (\<lambda>x. \<not> P x) xs" by (rule takeWhile_eq_take[symmetric])
  then have before: "\<not> list_ex P (take ?n xs)"
    by (auto simp: list_ex_iff dest: set_takeWhileD)
  from True r less hit before show ?thesis by (simp add: first_index_def)
qed

text \<open>
  Claim C9. For a pending order, the index that marks a row of the asks table (looked
  at for a Buy order) is the index of the first level of the asks ladder whose price the
  order's price is at or above, and the index that marks a row of the bids table (looked
  at for a Sell order) is the index of the first level of the bids ladder whose price the
  order's price is at or below; each is \<open>-1\<close> when no level of its ladder, or an
  empty ladder, satisfies the condition.
\<close>

theorem book_locator_is_first_matching_level:
  "(side order = Buy \<longrightarrow>
      first_index (\<lambda>ask. jge (parseFloat (price order)) (levelPrice ask)) (asks book)
        (simulatedAskIndex book (Some order)))
   \<and> (side order = Sell \<longrightarrow>
      first_index (\<lambda>bid. jle (parseFloat (price order)) (levelPrice bid)) (bids book)
        (simulatedBidIndex book (Some order)))"
  using findIndex_first_index[of "\<lambda>ask. jge (parseFloat (price order)) (levelPrice ask)" "asks book"]
    findIndex_first_index[of "\<lambda>bid. jle (parseFloat (price order)) (levelPrice bid)" "bids book"]
  by (simp add: simulatedAskIndex_def simulatedBidIndex_def findSimulatedIndex_def
      levelPrice_def Let_def)

theorem book_locator_is_first_matching_level_witness:
  "side (form_order Limit Buy ''100'' ''1'' ''0'') = Buy
   \<and> simulatedAskIndex \<lparr>bids = example_bids, asks = rev example_asks\<rparr>
        (Some (form_order Limit Buy ''100'' ''1'' ''0'')) = 2
   \<and> first_index (\<lambda>ask. jge (Fin 100) (levelPrice ask)) (rev example_asks) 2
   \<and> side (form_order Limit Sell ''100'' ''1'' ''0'') = Sell
   \<and> simulatedBidIndex \<lparr>bids = example_bids, asks = example_asks\<rparr>
        (Some (form_order Limit Sell ''100'' ''1'' ''0'')) = - 1
   \<and> first_index (\<lambda>bid. jle (Fin 100) (levelPrice bid)) example_bids (- 1)"
proof -
  let ?ob = "form_order Limit Buy ''100'' ''1'' ''0''"
  let ?os = "form_order Limit Sell ''100'' ''1'' ''0''"
  let ?b1 = "\<lparr>bids = example_bids, asks = rev example_asks\<rparr>"
  let ?b2 = "\<lparr>bids = example_bids, asks = example_asks\<rparr>"
  have sb: "side ?ob = Buy" and ss: "side ?os = Sell" by (simp_all add: form_order_def)
  have pb: "parseFloat (price ?ob) = Fin 100" and ps: "parseFloat (price ?os) = Fin 100"
    by (simp_all add: form_order_def)
  have ia: "simulatedAskIndex ?b1 (Some ?ob) = 2"
    by (simp add: simulatedAskIndex_def findSimulatedIndex_def findIndex_def form_order_def
        example_asks_def nth_cell_def jge_def)
  have ib: "simulatedBidIndex ?b2 (Some ?os) = - 1"
    by (simp add: simulatedBidIndex_def findSimulatedIndex_def findIndex_def form_order_def
        example_bids_def nth_cell_def)
  from book_locator_is_first_matching_level[of ?ob ?b1] sb
  have fa: "first_index (\<lambda>ask. jge (Fin 100) (levelPrice ask)) (rev example_asks) 2"
    by (simp add: pb ia)
  from book_locator_is_first_matching_level[of ?os ?b2] ss
  have fb: "first_index (\<lambda>bid. jle (Fin 100) (levelPrice bid)) example_bids (- 1)"
    by (simp add: ps ib)
  from sb ia fa ss ib fb show ?thesis by blast
qed

section \<open>A quantity that is not positive\<close>







section \<open>An empty side\<close>

text \<open>
  Claim C4. A market order against an opposite side with no level: nothing is filled
  and, for a positive quantity, the fill percent and the slippage are 0; but the average
  fill price is \<open>0 / 0\<close> and the returned impact is \<open>NaN\<close>, not a number at or above
  zero. The slippage is guarded by \<open>filledQty > 0\<close>; the impact is not.
\<close>

theorem empty_side_market_order_impact_is_NaN:
  "orderType order = Market \<Longrightarrow> bookSide order book = [] \<Longrightarrow>
   filledQty (run_walk order book) = Fin 0
   \<and> (jgt (parseFloat (quantity order)) (Fin 0) \<longrightarrow>
        fillPercent (calculateMetrics toFixed2 order book) = Fin 0)
   \<and> slippage (calculateMetrics toFixed2 order book) = Fin 0
   \<and> impact (calculateMetrics toFixed2 order book) = NaN
   \<and> \<not> jge (impact (calculateMetrics toFixed2 order book)) (Fin 0)"
  by (cases "parseFloat (quantity order)") (simp_all add: sim_defs)

theorem empty_side_market_order_impact_is_NaN_witness:
  "orderType (form_order Market Buy [] ''1'' ''0'') = Market
   \<and> bookSide (form_order Market Buy [] ''1'' ''0'') \<lparr>bids = example_bids, asks = []\<rparr> = []
   \<and> jgt (parseFloat (quantity (form_order Market Buy [] ''1'' ''0''))) (Fin 0)
   \<and> calculateMetrics (\<lambda>x. []) (form_order Market Buy [] ''1'' ''0'')
        \<lparr>bids = example_bids, asks = []\<rparr>
      = \<lparr>fillPercent = Fin 0, slippage = Fin 0, impact = NaN, warning = []\<rparr>"
proof -
  let ?o = "form_order Market Buy [] ''1'' ''0''"
  let ?b = "\<lparr>bids = example_bids, asks = []\<rparr>"
  have t: "orderType ?o = Market" by (simp add: form_order_def)
  have e: "bookSide ?o ?b = []" by (simp add: form_order_def bookSide_def)
  have q: "jgt (parseFloat (quantity ?o)) (Fin 0)" by (simp add: form_order_def jgt_def)
  have w: "warning (calculateMetrics (\<lambda>x. []) ?o ?b) = []"
    by (simp add: sim_defs form_order_def)
  from empty_side_market_order_impact_is_NaN[OF t e, of "\<lambda>x. []"] q w
  have "calculateMetrics (\<lambda>x. []) ?o ?b
      = \<lparr>fillPercent = Fin 0, slippage = Fin 0, impact = NaN, warning = []\<rparr>"
    by (cases "calculateMetrics (\<lambda>x. []) ?o ?b") simp
  with t e q show ?thesis by blast
qed

section \<open>The adapters\<close>

lemma channel_books_truthy:
  "get_prop arg ''channel'' = Inr (JStr ''books'') \<Longrightarrow> js_truthy arg"
  by (cases arg) (auto split: if_splits)

lemma length_positive: "js_gt0 (JNum (Fin (real (Suc n)))) = Inr True"
  by (simp add: js_gt0_def ebind_def jgt_def)

text \<open>
  Claim C1. The adapters copy the arrays of the message: they neither sort nor remove
  duplicates, so a returned book is ordered only as far as the venue's arrays are. The
  OKX adapter moreover returns the asks array reversed: for a \<open>books\<close> message whose
  asks arrive ascending by price, as OKX sends them, the returned asks descend and the
  book breaks the invariant that asks ascend. The Bybit adapter, on the same ladders,
  returns them as they came.
\<close>

theorem OKX_parse_reverses_asks:
  assumes "get_prop data ''arg'' = Inr arg"
    and "get_prop arg ''channel'' = Inr (JStr ''books'')"
    and "get_prop data ''data'' = Inr (JArr (JObj d0 # rest))"
    and "map_of d0 ''bids'' = Some bs"
    and "map_of d0 ''asks'' = Some (JArr as)"
  shows "OKX_parse data = Inr (Some \<lparr>bids = bs, asks = JArr (rev as)\<rparr>)"
  using assms channel_books_truthy[OF assms(2)] length_positive[of "length rest"]
  by (simp add: OKX_parse_def ebind_def js_reverse_def)

lemma okx_example_ladders:
  "ladder_of (JArr [okx_level ''100'' ''1'', okx_level ''101'' ''2''])
     = Some [[Str ''100'', Str ''1'', Str ''0'', Str ''1''],
             [Str ''101'', Str ''2'', Str ''0'', Str ''1'']]"
  "ladder_of (JArr [okx_level ''101'' ''2'', okx_level ''100'' ''1''])
     = Some [[Str ''101'', Str ''2'', Str ''0'', Str ''1''],
             [Str ''100'', Str ''1'', Str ''0'', Str ''1'']]"
  "ladder_of (JArr [okx_level ''99'' ''1'', okx_level ''98'' ''3''])
     = Some [[Str ''99'', Str ''1'', Str ''0'', Str ''1''],
             [Str ''98'', Str ''3'', Str ''0'', Str ''1'']]"
  by (simp_all add: ladder_of_def level_of_def okx_level_def)

lemma parse_prices [simp]:
  "parseFloat_str ''98'' = Fin 98" "parseFloat_str ''99'' = Fin 99"
  "parseFloat_str ''101'' = Fin 101"
  by (simp_all add: scan_defs)

theorem OKX_parse_reverses_asks_witness:
  "get_prop okx_books_message ''arg''
     = Inr (JObj [(''channel'', JStr ''books''), (''instId'', JStr ''BTC-USD-SWAP'')])
   \<and> get_prop (JObj [(''channel'', JStr ''books''), (''instId'', JStr ''BTC-USD-SWAP'')])
        ''channel'' = Inr (JStr ''books'')
   \<and> canonical \<lparr>bids = JArr [okx_level ''99'' ''1'', okx_level ''98'' ''3''],
                 asks = JArr [okx_level ''100'' ''1'', okx_level ''101'' ''2'']\<rparr>
   \<and> OKX_parse okx_books_message
        = Inr (Some \<lparr>bids = JArr [okx_level ''99'' ''1'', okx_level ''98'' ''3''],
                     asks = JArr [okx_level ''101'' ''2'', okx_level ''100'' ''1'']\<rparr>)
   \<and> \<not> canonical \<lparr>bids = JArr [okx_level ''99'' ''1'', okx_level ''98'' ''3''],
                   asks = JArr [okx_level ''101'' ''2'', okx_level ''100'' ''1'']\<rparr>
   \<and> ladder_of (JArr [okx_level ''101'' ''2'', okx_level ''100'' ''1''])
        = Some [[Str ''101'', Str ''2'', Str ''0'', Str ''1''],
                [Str ''100'', Str ''1'', Str ''0'', Str ''1'']]
   \<and> \<not> asks_ascending [[Str ''101'', Str ''2'', Str ''0'', Str ''1''],
                         [Str ''100'', Str ''1'', Str ''0'', Str ''1'']]"
proof -
  let ?arg = "JObj [(''channel'', JStr ''books''), (''instId'', JStr ''BTC-USD-SWAP'')]"
  let ?d0 = "[(''asks'', JArr [okx_level ''100'' ''1'', okx_level ''101'' ''2'']),
              (''bids'', JArr [okx_level ''99'' ''1'', okx_level ''98'' ''3'']),
              (''ts'', JStr ''1597026383085'')]"
  have a: "get_prop okx_books_message ''arg'' = Inr ?arg"
    by (simp add: okx_books_message_def)
  have c: "get_prop ?arg ''channel'' = Inr (JStr ''books'')" by simp
  have d: "get_prop okx_books_message ''data'' = Inr (JArr (JObj ?d0 # []))"
    by (simp add: okx_books_message_def)
  have b: "map_of ?d0 ''bids'' = Some (JArr [okx_level ''99'' ''1'', okx_level ''98'' ''3''])"
    by simp
  have k: "map_of ?d0 ''asks'' = Some (JArr [okx_level ''100'' ''1'', okx_level ''101'' ''2''])"
    by simp
  have p: "OKX_parse okx_books_message
        = Inr (Some \<lparr>bids = JArr [okx_level ''99'' ''1'', okx_level ''98'' ''3''],
                     asks = JArr [okx_level ''101'' ''2'', okx_level ''100'' ''1'']\<rparr>)"
    using OKX_parse_reverses_asks[OF a c d b k] by simp
  have raw: "canonical \<lparr>bids = JArr [okx_level ''99'' ''1'', okx_level ''98'' ''3''],
                 asks = JArr [okx_level ''100'' ''1'', okx_level ''101'' ''2'']\<rparr>"
    by (simp add: canonical_def okx_example_ladders bids_descending_def asks_ascending_def
        levelPrice_def nth_cell_def jgt_def)
  have n: "\<not> asks_ascending [[Str ''101'', Str ''2'', Str ''0'', Str ''1''],
                         [Str ''100'', Str ''1'', Str ''0'', Str ''1'']]"
    by (simp add: asks_ascending_def levelPrice_def nth_cell_def)
  have nc: "\<not> canonical \<lparr>bids = JArr [okx_level ''99'' ''1'', okx_level ''98'' ''3''],
                   asks = JArr [okx_level ''101'' ''2'', okx_level ''100'' ''1'']\<rparr>"
    using n by (simp add: canonical_def okx_example_ladders)
  from a c raw p nc okx_example_ladders(2) n show ?thesis by blast
qed

lemma Bybit_parse_keeps_order:
  "Bybit_parse bybit_orderbook_message
     = Inr (Some \<lparr>bids = JArr [JArr [JStr ''99'', JStr ''1''], JArr [JStr ''98'', JStr ''3'']],
                  asks = JArr [JArr [JStr ''100'', JStr ''1''], JArr [JStr ''101'', JStr ''2'']]\<rparr>)"
  "canonical \<lparr>bids = JArr [JArr [JStr ''99'', JStr ''1''], JArr [JStr ''98'', JStr ''3'']],
              asks = JArr [JArr [JStr ''100'', JStr ''1''], JArr [JStr ''101'', JStr ''2'']]\<rparr>"
  by (simp_all add: Bybit_parse_def bybit_orderbook_message_def ebind_def js_startsWith_def
      canonical_def ladder_of_def level_of_def bids_descending_def asks_ascending_def
      levelPrice_def nth_cell_def jgt_def)

text \<open>
  Claim C2. The handler throws on some inbound messages: a Deribit message whose
  \<open>params\<close> has no \<open>channel\<close> makes \<open>parse\<close> call \<open>startsWith\<close> on
  \<open>undefined\<close>, a \<open>TypeError\<close> that nothing catches, and a text that is not JSON
  makes \<open>JSON.parse\<close> throw \<open>SyntaxError\<close> out of the handler. The OKX adapter, by
  contrast, tests \<open>arg.channel\<close> without a call and reports no update.
\<close>

theorem malformed_message_throws:
  "onmessage numToString Deribit (Inr deribit_no_channel_message) orderbook = Inl TypeError
   \<and> Deribit_parse numToString deribit_no_channel_message = Inl TypeError
   \<and> onmessage numToString v (Inl SyntaxError) orderbook = Inl SyntaxError
   \<and> OKX_parse (JObj [(''arg'', JObj [(''instId'', JStr ''BTC-USD-SWAP'')])]) = Inr None"
  by (simp add: onmessage_def parse_def Deribit_parse_def OKX_parse_def ebind_def
      deribit_no_channel_message_def js_startsWith_def)

section \<open>The delayed simulation\<close>

lemma run_Cons: "run toFixed2 pg (ev # evs) = run toFixed2 (step toFixed2 pg ev) evs"
  by (simp add: run_def)

lemma run_append: "run toFixed2 pg (evs @ evs') = run toFixed2 (run toFixed2 pg evs) evs'"
  by (simp add: run_def)

text \<open>Publishing books leaves a pending timer, and what it captured, as they are.\<close>

lemma run_publish:
  "simulationTimeout (run toFixed2 pg (map SetOrderbook bs)) = simulationTimeout pg
   \<and> currentOrderbook (run toFixed2 pg (map SetOrderbook bs))
       = (if bs = [] then currentOrderbook pg else last bs)"
proof (induction bs arbitrary: pg)
  case Nil
  show ?case by (simp add: run_def)
next
  case (Cons b bs)
  from Cons[of "pg\<lparr>currentOrderbook := b\<rparr>"] show ?case by (simp add: run_Cons)
qed

lemma executeSimulation_metrics:
  "simulationMetrics (executeSimulation toFixed2 formData book pg)
     = simulationMetrics (executeSimulation toFixed2 formData book pg')"
  by (simp add: executeSimulation_def Let_def)

text \<open>
  Claim C3. After a submission with a positive delay, whatever books the feed publishes
  before the timer fires, the last of them is the page's current book when it fires, but
  the metrics the timer publishes are those of the simulation on the book the page
  showed at submission: \<open>executeSimulation\<close> reads the \<open>currentOrderbook\<close> its
  closure captured.
\<close>

theorem delayed_simulation_runs_on_submission_book:
  assumes "jgt (jmul (parseInt10 (delay formData)) (Fin 1000)) (Fin 0)"
  shows "simulationMetrics
           (run toFixed2 pg (Submit formData # map SetOrderbook bs @ [TimerFires]))
         = simulationMetrics (executeSimulation toFixed2 formData (currentOrderbook pg) pg)
       \<and> currentOrderbook (run toFixed2 pg (Submit formData # map SetOrderbook bs))
         = (if bs = [] then currentOrderbook pg else last bs)"
proof -
  let ?pg1 = "step toFixed2 pg (Submit formData)"
  let ?pg2 = "run toFixed2 ?pg1 (map SetOrderbook bs)"
  have t1: "simulationTimeout ?pg1 = Some (formData, currentOrderbook pg)"
    and c1: "currentOrderbook ?pg1 = currentOrderbook pg"
    using assms by (simp_all add: handleSimulationSubmit_def Let_def)
  have t2: "simulationTimeout ?pg2 = Some (formData, currentOrderbook pg)"
    using run_publish[of toFixed2 ?pg1 bs] t1 by simp
  have r: "run toFixed2 pg (Submit formData # map SetOrderbook bs @ [TimerFires])
      = step toFixed2 ?pg2 TimerFires"
    by (simp add: run_Cons run_append) (simp add: run_def)
  have "simulationMetrics (step toFixed2 ?pg2 TimerFires)
      = simulationMetrics (executeSimulation toFixed2 formData (currentOrderbook pg) pg)"
    using t2 executeSimulation_metrics by simp
  with r have m: "simulationMetrics
      (run toFixed2 pg (Submit formData # map SetOrderbook bs @ [TimerFires]))
      = simulationMetrics (executeSimulation toFixed2 formData (currentOrderbook pg) pg)"
    by simp
  have "currentOrderbook (run toFixed2 pg (Submit formData # map SetOrderbook bs))
      = (if bs = [] then currentOrderbook pg else last bs)"
    using run_publish[of toFixed2 ?pg1 bs] c1 by (simp add: run_Cons)
  with m show ?thesis by simp
qed

theorem delayed_simulation_runs_on_submission_book_witness:
  "jgt (jmul (parseInt10 (delay delayed_order)) (Fin 1000)) (Fin 0)
   \<and> currentOrderbook
       (run (\<lambda>x. []) example_page (Submit delayed_order # map SetOrderbook [later_book]))
       = later_book
   \<and> simulationMetrics
       (run (\<lambda>x. []) example_page
          (Submit delayed_order # map SetOrderbook [later_book] @ [TimerFires]))
       = Some \<lparr>fillPercent = Fin 80, slippage = Fin (3 / 2), impact = Fin (3 / 2),
               warning = ''High slippage warning! Your order may cause a price impact of approximately $.''\<rparr>
   \<and> simulationMetrics (executeSimulation (\<lambda>x. []) delayed_order later_book example_page)
       = Some \<lparr>fillPercent = Fin 50, slippage = Fin 0, impact = Fin 0, warning = []\<rparr>"
proof -
  have d: "jgt (jmul (parseInt10 (delay delayed_order)) (Fin 1000)) (Fin 0)"
    by (simp add: delayed_order_def form_order_def parseInt10_def scan_defs jgt_def)
  have e0: "simulationMetrics
      (executeSimulation (\<lambda>x. []) delayed_order (currentOrderbook example_page) example_page)
      = Some \<lparr>fillPercent = Fin 80, slippage = Fin (3 / 2), impact = Fin (3 / 2),
               warning = ''High slippage warning! Your order may cause a price impact of approximately $.''\<rparr>"
    by (simp add: executeSimulation_def example_page_def delayed_order_def form_order_def
        example_asks_def sim_defs)
  have e1: "simulationMetrics (executeSimulation (\<lambda>x. []) delayed_order later_book example_page)
      = Some \<lparr>fillPercent = Fin 50, slippage = Fin 0, impact = Fin 0, warning = []\<rparr>"
    by (simp add: executeSimulation_def later_book_def delayed_order_def form_order_def
        sim_defs)
  from delayed_simulation_runs_on_submission_book[OF d, of "\<lambda>x. []" example_page "[later_book]"]
    d e0 e1
  show ?thesis by simp
qed

end
